theory Spec2Isabelle
  imports Main "HOL-Library.AList"
begin

section \<open>Strings and values of the host language\<close>

text \<open>
  A JavaScript string is a sequence of UTF-16 code units. The source's literals outside
  ASCII are written by their code units; ASCII literals go through \<open>js\<close>.
\<close>

type_synonym jsstring = "nat list"

definition js :: "string \<Rightarrow> jsstring" where
  "js s = map of_char s"

text \<open>
  The characters removed by \<open>String.prototype.trim\<close> and matched by \<open>\s\<close>:
  ECMAScript WhiteSpace and LineTerminator.
\<close>

definition isWhiteSpace :: "nat \<Rightarrow> bool" where
  "isWhiteSpace c \<longleftrightarrow>
     c \<in> {9, 10, 11, 12, 13, 32, 160, 5760, 8232, 8233, 8239, 8287, 12288, 65279}
     \<or> (8192 \<le> c \<and> c \<le> 8202)"

definition trim :: "jsstring \<Rightarrow> jsstring" where
  "trim s = rev (dropWhile isWhiteSpace (rev (dropWhile isWhiteSpace s)))"

text \<open>
  The values a front matter field or an \<open>unknown\<close> argument can hold. Only the
  distinction between strings and everything else is observed by the source.
\<close>

datatype jsvalue =
    JUndefined
  | JNull
  | JBool bool
  | JNumber int
  | JString jsstring
  | JArray "jsvalue list"
  | JObject "(jsstring \<times> jsvalue) list"

section \<open>Data model\<close>

datatype LeapStrategy = Strict | Forward | Backward

record LunarDate =
  year :: int
  month :: int
  day :: int
  isLeap :: bool

record ResolvedLunarMonth =
  rmonth :: int
  risLeap :: bool

text \<open>
  \<open>LEAP_STRATEGY_LOOKUP\<close> is an object literal, so a property read on it sees its six own
  properties first and then the members it inherits from \<open>Object.prototype\<close>. The value
  that \<open>parseLeapStrategy\<close> hands on is therefore either one of the three strategy
  strings or an inherited member, which is a function or an object and equals none of
  the three strings.
\<close>

datatype StrategyValue = Strategy LeapStrategy | Inherited jsstring

definition LEAP_STRATEGY_LOOKUP :: "(jsstring \<times> LeapStrategy) list" where
  "LEAP_STRATEGY_LOOKUP =
     [([20005, 26684, 38384, 26376], Strict),
      ([21521, 21069, 25240, 31639], Forward),
      ([21521, 21518, 25240, 31639], Backward),
      (js ''strict'', Strict),
      (js ''forward'', Forward),
      (js ''backward'', Backward)]"

text \<open>The property names of \<open>Object.prototype\<close> (ECMAScript, with Annex B); all are truthy.\<close>

definition OBJECT_PROTOTYPE_KEYS :: "jsstring list" where
  "OBJECT_PROTOTYPE_KEYS =
     [js ''constructor'', js ''__defineGetter__'', js ''__defineSetter__'',
      js ''hasOwnProperty'', js ''__lookupGetter__'', js ''__lookupSetter__'',
      js ''isPrototypeOf'', js ''propertyIsEnumerable'', js ''toString'',
      js ''valueOf'', js ''__proto__'', js ''toLocaleString'']"

text \<open>\<open>LEAP_STRATEGY_LOOKUP[key]\<close>; \<open>None\<close> is \<open>undefined\<close>.\<close>

definition lookupStrategy :: "jsstring \<Rightarrow> StrategyValue option" where
  "lookupStrategy key =
     (case map_of LEAP_STRATEGY_LOOKUP key of
        Some v \<Rightarrow> Some (Strategy v)
      | None \<Rightarrow> if key \<in> set OBJECT_PROTOTYPE_KEYS then Some (Inherited key) else None)"

section \<open>parseLunar\<close>

text \<open>
  \<open>LUNAR_INPUT_RE\<close> is
  \<^verbatim>\<open>^(?:TAG)?\s*(\d{4})-(LEAP)?(\d{2})-(\d{2})\s*$\<close>
  where \<open>TAG\<close> is the two code units U+519C U+5386 and \<open>LEAP\<close> is U+95F0. Neither
  literal is a digit or white space, so the optional groups never need backtracking:
  each is taken exactly when it is present. The expression has no \<open>m\<close> flag, so
  \<open>$\<close> is the end of the input.
\<close>

definition LUNAR_TAG :: jsstring where
  "LUNAR_TAG = [20892, 21382]"

definition LEAP_MARKER :: jsstring where
  "LEAP_MARKER = [38384]"

definition isDigit :: "nat \<Rightarrow> bool" where
  "isDigit c \<longleftrightarrow> 48 \<le> c \<and> c \<le> 57"

definition isDigits :: "nat \<Rightarrow> jsstring \<Rightarrow> bool" where
  "isDigits n s \<longleftrightarrow> length s = n \<and> list_all isDigit s"

text \<open>\<open>Number(s)\<close> for a string of decimal digits.\<close>

definition Number :: "jsstring \<Rightarrow> int" where
  "Number s = foldl (\<lambda>acc c. 10 * acc + (int c - 48)) 0 s"

definition startsWith :: "jsstring \<Rightarrow> jsstring \<Rightarrow> bool" where
  "startsWith s lit \<longleftrightarrow> take (length lit) s = lit"

definition skipOptional :: "jsstring \<Rightarrow> jsstring \<Rightarrow> jsstring" where
  "skipOptional lit s = (if startsWith s lit then drop (length lit) s else s)"

text \<open>
  After a match the three captures are digit strings, so \<open>Number.isInteger\<close> holds
  for each of them and the second \<open>return null\<close> of the source is never taken.
\<close>

definition parseLunar :: "jsstring \<Rightarrow> LunarDate option" where
  "parseLunar raw =
     (let s1 = dropWhile isWhiteSpace (skipOptional LUNAR_TAG raw);
          yearStr = take 4 s1;
          s2 = drop 4 s1;
          s3 = drop 1 s2;
          leap = startsWith s3 LEAP_MARKER;
          s4 = skipOptional LEAP_MARKER s3;
          monthStr = take 2 s4;
          s5 = drop 2 s4;
          s6 = drop 1 s5;
          dayStr = take 2 s6;
          s7 = drop 2 s6
      in if isDigits 4 yearStr \<and> startsWith s2 (js ''-'') \<and> isDigits 2 monthStr
            \<and> startsWith s5 (js ''-'') \<and> isDigits 2 dayStr \<and> list_all isWhiteSpace s7
         then Some \<lparr>year = Number yearStr, month = Number monthStr,
                     day = Number dayStr, isLeap = leap\<rparr>
         else None)"

section \<open>parseLeapStrategy\<close>

definition parseLeapStrategy :: "jsvalue \<Rightarrow> LeapStrategy \<Rightarrow> StrategyValue" where
  "parseLeapStrategy v fallback =
     (case v of
        JString s \<Rightarrow>
          (case lookupStrategy (trim s) of
             Some mapped \<Rightarrow> mapped
           | None \<Rightarrow> Strategy fallback)
      | _ \<Rightarrow> Strategy fallback)"

section \<open>Leap month resolution\<close>

text \<open>
  The lunar calendar library is external. \<open>getLeapMonth y\<close> stands for
  \<open>LunarYear.fromYear(y).getLeapMonth()\<close>, with \<open>None\<close> when the call throws.
\<close>

definition yearHasLeapMonth :: "(int \<Rightarrow> int option) \<Rightarrow> int \<Rightarrow> int \<Rightarrow> bool" where
  "yearHasLeapMonth getLeapMonth y m =
     (case getLeapMonth y of
        Some leapMonth \<Rightarrow> leapMonth = m
      | None \<Rightarrow> False)"

text \<open>
  The library answers 0 for a lunar year without a leap month. So the lunar calendar of
  year \<open>y\<close> has a leap month equal to \<open>m\<close> when \<open>m\<close> is not 0 and the library answers
  \<open>m\<close>; a failing call counts as no leap month. \<open>yearHasLeapMonth\<close> compares the
  answer with the month as it is, so it also holds of month 0 in a year without a leap
  month.
\<close>

definition hasLeapMonth :: "(int \<Rightarrow> int option) \<Rightarrow> int \<Rightarrow> int \<Rightarrow> bool" where
  "hasLeapMonth getLeapMonth y m \<longleftrightarrow> m \<noteq> 0 \<and> getLeapMonth y = Some m"

definition resolveLunarMonth ::
  "(int \<Rightarrow> int option) \<Rightarrow> int \<Rightarrow> LunarDate \<Rightarrow> StrategyValue \<Rightarrow> ResolvedLunarMonth option" where
  "resolveLunarMonth getLeapMonth y lunar strategy =
     (if \<not> isLeap lunar then Some \<lparr>rmonth = month lunar, risLeap = False\<rparr>
      else
        let hasLeap = yearHasLeapMonth getLeapMonth y (month lunar) in
        if strategy = Strategy Strict then
          (if \<not> hasLeap then None else Some \<lparr>rmonth = month lunar, risLeap = True\<rparr>)
        else if strategy = Strategy Forward then
          (if hasLeap then Some \<lparr>rmonth = month lunar, risLeap = True\<rparr>
           else Some \<lparr>rmonth = month lunar, risLeap = False\<rparr>)
        else if strategy = Strategy Backward then
          (if hasLeap then Some \<lparr>rmonth = month lunar, risLeap = True\<rparr>
           else
             let nextMonth = (if month lunar = 12 then 12 else month lunar + 1) in
             Some \<lparr>rmonth = nextMonth, risLeap = False\<rparr>)
        else None)"

section \<open>Conversion to a calendar date\<close>

text \<open>
  A calendar date at day precision. \<open>isSameOrAfter a b\<close> is moment's
  \<open>a.isSameOrAfter(b, "day")\<close>.
\<close>

datatype CalendarDate = CalendarDate (cyear: int) (cmonth: int) (cday: int)

definition isSameOrAfter :: "CalendarDate \<Rightarrow> CalendarDate \<Rightarrow> bool" where
  "isSameOrAfter a b \<longleftrightarrow>
     cyear b < cyear a
     \<or> (cyear a = cyear b \<and> (cmonth b < cmonth a \<or> (cmonth a = cmonth b \<and> cday b \<le> cday a)))"

text \<open>
  \<open>fromYmd y m d\<close> stands for \<open>Lunar.fromYmd(y, m, d).getSolar()\<close> read as a calendar
  date, with \<open>None\<close> when the library throws; a negative month is a leap month. The
  source rebuilds the library's date with \<open>new Date(year, month - 1, day)\<close> and wraps it
  with \<open>moment\<close>. That keeps a date of the Gregorian calendar whose year is 100 or more,
  and \<open>toSolar\<close> hands such a date on as it is. For a year from 0 to 99 \<open>new Date\<close>
  gives the year plus 1900; such solar years are not covered here: the target years lie
  around the current year of the clock.
\<close>

definition toSolar ::
  "(int \<Rightarrow> int option) \<Rightarrow> (int \<Rightarrow> int \<Rightarrow> int \<Rightarrow> CalendarDate option) \<Rightarrow>
   int \<Rightarrow> LunarDate \<Rightarrow> StrategyValue \<Rightarrow> CalendarDate option" where
  "toSolar getLeapMonth fromYmd y lunar strategy =
     (case resolveLunarMonth getLeapMonth y lunar strategy of
        None \<Rightarrow> None
      | Some resolved \<Rightarrow>
          let lunarMonth = (if risLeap resolved then - rmonth resolved else rmonth resolved)
          in fromYmd y lunarMonth (day lunar))"

definition MAX_SEARCH_YEARS :: nat where
  "MAX_SEARCH_YEARS = 80"

function findNextSolarFrom ::
  "(int \<Rightarrow> int option) \<Rightarrow> (int \<Rightarrow> int \<Rightarrow> int \<Rightarrow> CalendarDate option) \<Rightarrow>
   CalendarDate \<Rightarrow> LunarDate \<Rightarrow> StrategyValue \<Rightarrow> nat \<Rightarrow> CalendarDate option" where
  "findNextSolarFrom getLeapMonth fromYmd today lunar strategy i =
     (if i < MAX_SEARCH_YEARS then
        (let targetYear = cyear today + int i in
         case toSolar getLeapMonth fromYmd targetYear lunar strategy of
           Some solar \<Rightarrow>
             if isSameOrAfter solar today then Some solar
             else findNextSolarFrom getLeapMonth fromYmd today lunar strategy (i + 1)
         | None \<Rightarrow> findNextSolarFrom getLeapMonth fromYmd today lunar strategy (i + 1))
      else None)"
  by pat_completeness auto
termination
  by (relation "measure (\<lambda>(g, c, t, l, s, i). MAX_SEARCH_YEARS - i)") auto

definition findNextSolar ::
  "(int \<Rightarrow> int option) \<Rightarrow> (int \<Rightarrow> int \<Rightarrow> int \<Rightarrow> CalendarDate option) \<Rightarrow>
   CalendarDate \<Rightarrow> LunarDate \<Rightarrow> StrategyValue \<Rightarrow> CalendarDate option" where
  "findNextSolar getLeapMonth fromYmd today lunar strategy =
     findNextSolarFrom getLeapMonth fromYmd today lunar strategy 0"

text \<open>
  What candidate year \<open>k\<close> of the search window contributes: the date converted for
  the year \<open>k\<close> years after the current one, when there is one and it is on or after
  today.
\<close>

definition candidate ::
  "(int \<Rightarrow> int option) \<Rightarrow> (int \<Rightarrow> int \<Rightarrow> int \<Rightarrow> CalendarDate option) \<Rightarrow>
   CalendarDate \<Rightarrow> LunarDate \<Rightarrow> StrategyValue \<Rightarrow> nat \<Rightarrow> CalendarDate option" where
  "candidate getLeapMonth fromYmd today lunar strategy k =
     (case toSolar getLeapMonth fromYmd (cyear today + int k) lunar strategy of
        Some solar \<Rightarrow> if isSameOrAfter solar today then Some solar else None
      | None \<Rightarrow> None)"

section \<open>Key templates\<close>

text \<open>
  \<open>tokenRe\<close> of \<open>escapeLiteralForMoment\<close>:
  \<^verbatim>\<open>\[.*?]|YYYY|YY|QO?|MMMM|MMM|MM|M|DDDD|DDD|DD|D|Do|dddd|ddd|dd|d|WWWW|WWW|WW|W|HH?|hh?|mm?|ss?|A|a|X|x|Z{1,2}|SSS|SS|S\<close>.
  The first alternative is a bracket, then as few characters as possible other than
  line terminators, then a closing bracket: it ends at the first closing bracket, and
  fails when a line terminator comes before it.
\<close>

definition isLineTerminator :: "nat \<Rightarrow> bool" where
  "isLineTerminator c \<longleftrightarrow> c \<in> {10, 13, 8232, 8233}"

text \<open>The length of \<^verbatim>\<open>.*?]\<close> at the head of a string, when it matches there.\<close>

fun matchBracketRest :: "jsstring \<Rightarrow> nat option" where
  "matchBracketRest [] = None"
| "matchBracketRest (c # cs) =
     (if c = 93 then Some 1
      else if isLineTerminator c then None
      else map_option Suc (matchBracketRest cs))"

text \<open>
  The other alternatives, in the order of the source; an optional or counted last
  character is greedy, so the longer form comes first.
\<close>

definition TOKEN_ALTERNATIVES :: "jsstring list" where
  "TOKEN_ALTERNATIVES = map js
     [''YYYY'', ''YY'', ''QO'', ''Q'', ''MMMM'', ''MMM'', ''MM'', ''M'',
      ''DDDD'', ''DDD'', ''DD'', ''D'', ''Do'', ''dddd'', ''ddd'', ''dd'', ''d'',
      ''WWWW'', ''WWW'', ''WW'', ''W'', ''HH'', ''H'', ''hh'', ''h'', ''mm'', ''m'',
      ''ss'', ''s'', ''A'', ''a'', ''X'', ''x'', ''ZZ'', ''Z'', ''SSS'', ''SS'', ''S'']"

text \<open>The length of the match of \<open>tokenRe\<close> that starts at the head of a string.\<close>

definition matchToken :: "jsstring \<Rightarrow> nat option" where
  "matchToken s =
     (case (if startsWith s (js ''['') then matchBracketRest (drop 1 s) else None) of
        Some n \<Rightarrow> Some (Suc n)
      | None \<Rightarrow> map_option length (find (startsWith s) TOKEN_ALTERNATIVES))"

definition wrapLiteral :: "jsstring \<Rightarrow> jsstring" where
  "wrapLiteral text =
     (if text = [] then []
      else js ''['' @ concat (map (\<lambda>c. if c = 93 then [92, 93] else [c]) text) @ js '']'')"

text \<open>
  The \<open>exec\<close> loop: \<open>lit\<close> is the text between \<open>lastIndex\<close> and the position being
  tried. A match at \<open>c\<close> of length \<open>n\<close> is \<open>c\<close> and the next \<open>n - 1\<close> units.
\<close>

fun escapeScan :: "jsstring \<Rightarrow> jsstring \<Rightarrow> jsstring" where
  "escapeScan lit [] = wrapLiteral lit"
| "escapeScan lit (c # cs) =
     (case matchToken (c # cs) of
        Some n \<Rightarrow> wrapLiteral lit @ (c # take (n - 1) cs) @ escapeScan [] (drop (n - 1) cs)
      | None \<Rightarrow> escapeScan (lit @ [c]) cs)"

definition escapeLiteralForMoment :: "jsstring \<Rightarrow> jsstring" where
  "escapeLiteralForMoment pattern = escapeScan [] pattern"

section \<open>Range output\<close>

datatype OutputMode = Single | Range

record LunarSolarSettings =
  sourceKey :: jsstring
  outputMode :: OutputMode
  outputKeySingle :: jsstring
  outputDateFormat :: jsstring
  outputKeyPattern :: jsstring
  rangePast :: int
  rangeFuture :: int
  defaultLeapStrategy :: LeapStrategy
  leapStrategyKey :: jsstring
  targets :: "jsstring list"

definition DEFAULT_SETTINGS :: LunarSolarSettings where
  "DEFAULT_SETTINGS =
     \<lparr>sourceKey = js ''lunar-birthday'',
      outputMode = Single,
      outputKeySingle = js ''birthday'',
      outputDateFormat = js ''YYYY-MM-DD'',
      outputKeyPattern = js ''[birthday]-YYYY'',
      rangePast = 1,
      rangeFuture = 1,
      defaultLeapStrategy = Forward,
      leapStrategyKey = [38384, 26376, 22788, 29702, 27169, 24335],
      targets = []\<rparr>"

text \<open>
  A \<open>Record<string, string>\<close> built from \<open>{}\<close> is the list of its own properties, with
  distinct keys. \<open>obj[key] = value\<close> with a string value stores an own property, except
  for the key \<open>__proto__\<close>: that assignment reaches the setter inherited from
  \<open>Object.prototype\<close>, which ignores a value that is neither an object nor null. The
  list is kept in insertion order. JavaScript enumerates integer-like keys first, in
  ascending order, and the other keys in insertion order; the only enumeration in the
  source is the one of \<open>writeFrontmatter\<close>, whose result is the same in every order
  (lemma \<open>writeFrontmatter_order\<close>).
\<close>

type_synonym record_string = "(jsstring \<times> jsstring) list"

definition objSet :: "record_string \<Rightarrow> jsstring \<Rightarrow> jsstring \<Rightarrow> record_string" where
  "objSet obj key v = (if key = js ''__proto__'' then obj else AList.update key v obj)"

text \<open>\<open>format d p\<close> stands for moment's \<open>d.format(p)\<close>, an external primitive.\<close>

function buildRangeLoop ::
  "(int \<Rightarrow> int option) \<Rightarrow> (int \<Rightarrow> int \<Rightarrow> int \<Rightarrow> CalendarDate option) \<Rightarrow>
   (CalendarDate \<Rightarrow> jsstring \<Rightarrow> jsstring) \<Rightarrow> LunarDate \<Rightarrow> StrategyValue \<Rightarrow>
   jsstring \<Rightarrow> jsstring \<Rightarrow> int \<Rightarrow> int \<Rightarrow> record_string \<Rightarrow> record_string" where
  "buildRangeLoop getLeapMonth fromYmd format lunar strategy keyPattern dateFormat y hi result =
     (if y \<le> hi then
        (case toSolar getLeapMonth fromYmd y lunar strategy of
           None \<Rightarrow>
             buildRangeLoop getLeapMonth fromYmd format lunar strategy keyPattern dateFormat
               (y + 1) hi result
         | Some solar \<Rightarrow>
             buildRangeLoop getLeapMonth fromYmd format lunar strategy keyPattern dateFormat
               (y + 1) hi (objSet result (format solar keyPattern) (format solar dateFormat)))
      else result)"
  by pat_completeness auto
termination
  by (relation "measure (\<lambda>(g, c, f, l, s, k, d, y, hi, r). nat (hi + 1 - y))") auto

definition buildRangeOutputs ::
  "(int \<Rightarrow> int option) \<Rightarrow> (int \<Rightarrow> int \<Rightarrow> int \<Rightarrow> CalendarDate option) \<Rightarrow>
   (CalendarDate \<Rightarrow> jsstring \<Rightarrow> jsstring) \<Rightarrow> LunarDate \<Rightarrow> StrategyValue \<Rightarrow>
   LunarSolarSettings \<Rightarrow> int \<Rightarrow> record_string" where
  "buildRangeOutputs getLeapMonth fromYmd format lunar strategy settings centerYear =
     buildRangeLoop getLeapMonth fromYmd format lunar strategy
       (escapeLiteralForMoment (outputKeyPattern settings)) (outputDateFormat settings)
       (centerYear - rangePast settings) (centerYear + rangeFuture settings) []"

section \<open>Processing one document\<close>

text \<open>
  A document is its front matter block, decoded, and its body; \<open>None\<close> is a document
  without a block. The metadata cache and the YAML codec belong to the host: the cache is
  taken to show the block that the file holds, and decoding what was encoded to give the
  same mapping back. Reading and writing the file are taken to succeed, so the
  \<open>failed\<close> outcome of the source's \<open>catch\<close> does not arise here.
\<close>

type_synonym frontmatter = "jsstring \<rightharpoonup> jsvalue"

record Document =
  frontmatter :: "frontmatter option"
  body :: jsstring

datatype Status = Updated | Unchanged | Skipped | Failed

record ProcessResult =
  status :: Status
  reason :: "string option"

text \<open>\<open>data[key]\<close> and \<open>data[key] = value\<close> on the decoded block.\<close>

definition getProp :: "frontmatter \<Rightarrow> jsstring \<Rightarrow> jsvalue" where
  "getProp data key = (case data key of Some v \<Rightarrow> v | None \<Rightarrow> JUndefined)"

definition setProp :: "frontmatter \<Rightarrow> jsstring \<Rightarrow> jsstring \<Rightarrow> frontmatter" where
  "setProp data key v = (if key = js ''__proto__'' then data else data(key \<mapsto> JString v))"

text \<open>The body of the \<open>forEach\<close> over \<open>Object.entries(updates)\<close>.\<close>

definition writeEntry :: "frontmatter \<times> bool \<Rightarrow> jsstring \<times> jsstring \<Rightarrow> frontmatter \<times> bool" where
  "writeEntry acc entry =
     (if getProp (fst acc) (fst entry) \<noteq> JString (snd entry)
      then (setProp (fst acc) (fst entry) (snd entry), True)
      else acc)"

definition writeFrontmatter :: "Document \<Rightarrow> record_string \<Rightarrow> bool \<times> Document" where
  "writeFrontmatter doc updates =
     (let data = (case frontmatter doc of Some d \<Rightarrow> d | None \<Rightarrow> Map.empty);
          acc = foldl writeEntry (data, False) updates
      in if \<not> snd acc then (False, doc)
         else (True, doc\<lparr>frontmatter := Some (fst acc)\<rparr>))"

definition skipped :: "string \<Rightarrow> Document \<Rightarrow> ProcessResult \<times> Document" where
  "skipped why doc = (\<lparr>status = Skipped, reason = Some why\<rparr>, doc)"

definition applyUpdates :: "Document \<Rightarrow> record_string \<Rightarrow> ProcessResult \<times> Document" where
  "applyUpdates doc updates =
     (let w = writeFrontmatter doc updates
      in (\<lparr>status = (if fst w then Updated else Unchanged), reason = None\<rparr>, snd w))"

definition processFile ::
  "(int \<Rightarrow> int option) \<Rightarrow> (int \<Rightarrow> int \<Rightarrow> int \<Rightarrow> CalendarDate option) \<Rightarrow>
   (CalendarDate \<Rightarrow> jsstring \<Rightarrow> jsstring) \<Rightarrow> CalendarDate \<Rightarrow>
   LunarSolarSettings \<Rightarrow> Document \<Rightarrow> ProcessResult \<times> Document" where
  "processFile getLeapMonth fromYmd format today settings doc =
     (case frontmatter doc of
        None \<Rightarrow> skipped ''no-frontmatter'' doc
      | Some fm \<Rightarrow>
          (case getProp fm (sourceKey settings) of
             JString raw \<Rightarrow>
               (case parseLunar raw of
                  None \<Rightarrow> skipped ''invalid-format'' doc
                | Some lunar \<Rightarrow>
                    let leapStrategy =
                          parseLeapStrategy (getProp fm (leapStrategyKey settings))
                            (defaultLeapStrategy settings)
                    in if outputMode settings = Single then
                         (case findNextSolar getLeapMonth fromYmd today lunar leapStrategy of
                            None \<Rightarrow> skipped ''no-solar'' doc
                          | Some solar \<Rightarrow>
                              applyUpdates doc
                                (objSet [] (outputKeySingle settings)
                                   (format solar (outputDateFormat settings))))
                       else
                         (let updates =
                                buildRangeOutputs getLeapMonth fromYmd format lunar leapStrategy
                                  settings (cyear today)
                          in if updates = [] then skipped ''no-solar'' doc
                             else applyUpdates doc updates))
           | _ \<Rightarrow> skipped ''no-source-key'' doc))"

text \<open>
  Two views of \<open>processFile\<close> used in the proofs. \<open>sourceFields\<close> is what it reads from
  the front matter: the source field and the strategy override. \<open>planUpdates\<close> is its
  middle part, from the two fields read to either the reason for skipping or the entries
  to write.
\<close>

definition sourceFields :: "LunarSolarSettings \<Rightarrow> Document \<Rightarrow> (jsvalue \<times> jsvalue) option" where
  "sourceFields settings doc =
     map_option (\<lambda>fm. (getProp fm (sourceKey settings), getProp fm (leapStrategyKey settings)))
       (frontmatter doc)"

definition planUpdates ::
  "(int \<Rightarrow> int option) \<Rightarrow> (int \<Rightarrow> int \<Rightarrow> int \<Rightarrow> CalendarDate option) \<Rightarrow>
   (CalendarDate \<Rightarrow> jsstring \<Rightarrow> jsstring) \<Rightarrow> CalendarDate \<Rightarrow>
   LunarSolarSettings \<Rightarrow> jsvalue \<Rightarrow> jsvalue \<Rightarrow> string + record_string" where
  "planUpdates getLeapMonth fromYmd format today settings source override =
     (case source of
        JString raw \<Rightarrow>
          (case parseLunar raw of
             None \<Rightarrow> Inl ''invalid-format''
           | Some lunar \<Rightarrow>
               let leapStrategy = parseLeapStrategy override (defaultLeapStrategy settings)
               in if outputMode settings = Single then
                    (case findNextSolar getLeapMonth fromYmd today lunar leapStrategy of
                       None \<Rightarrow> Inl ''no-solar''
                     | Some solar \<Rightarrow>
                         Inr (objSet [] (outputKeySingle settings)
                                (format solar (outputDateFormat settings))))
                  else
                    (let updates =
                           buildRangeOutputs getLeapMonth fromYmd format lunar leapStrategy
                             settings (cyear today)
                     in if updates = [] then Inl ''no-solar'' else Inr updates))
      | _ \<Rightarrow> Inl ''no-source-key'')"

section \<open>Stand-ins for the external primitives\<close>

text \<open>
  The theorems below hold for every lunar calendar library and every formatter. Where a
  concrete one is needed, these are used. \<open>sampleLeapMonth\<close> gives every third year a
  leap second month and fails before year 1. \<open>sampleFromYmd\<close> accepts months 1 to 12,
  leap or not, and days 1 to 30, and places the date in the year asked for.
  \<open>bracketFormat\<close> knows one rule of moment's formatter: a pattern that is a single
  bracketed run, with no opening bracket inside, formats to the text between the
  brackets, on every date.
\<close>

definition sampleLeapMonth :: "int \<Rightarrow> int option" where
  "sampleLeapMonth y = (if y < 1 then None else if y mod 3 = 0 then Some 2 else Some 0)"

definition sampleFromYmd :: "int \<Rightarrow> int \<Rightarrow> int \<Rightarrow> CalendarDate option" where
  "sampleFromYmd y m d =
     (if 1 \<le> \<bar>m\<bar> \<and> \<bar>m\<bar> \<le> 12 \<and> 1 \<le> d \<and> d \<le> 30 then Some (CalendarDate y \<bar>m\<bar> d) else None)"

definition bracketFormat :: "CalendarDate \<Rightarrow> jsstring \<Rightarrow> jsstring" where
  "bracketFormat d p =
     (if 2 \<le> length p \<and> hd p = 91 \<and> last p = 93 \<and> 91 \<notin> set (tl p) then butlast (tl p) else p)"

text \<open>
  What the key templater expects of the formatter: bracket-delimited text is literal.
\<close>

definition bracketsLiteral :: "(CalendarDate \<Rightarrow> jsstring \<Rightarrow> jsstring) \<Rightarrow> bool" where
  "bracketsLiteral format \<longleftrightarrow> (\<forall>d t. 91 \<notin> set t \<longrightarrow> format d (91 # t @ [93]) = t)"

text \<open>
  A pattern is literal text only when \<open>tokenRe\<close> matches at none of its positions.
\<close>

fun literalOnly :: "jsstring \<Rightarrow> bool" where
  "literalOnly [] = True"
| "literalOnly (c # cs) \<longleftrightarrow> matchToken (c # cs) = None \<and> literalOnly cs"

text \<open>
  The calendar library orders the years: a date of a later lunar year falls on a later
  day than any date of an earlier lunar year.
\<close>

definition yearsInOrder :: "(int \<Rightarrow> int \<Rightarrow> int \<Rightarrow> CalendarDate option) \<Rightarrow> bool" where
  "yearsInOrder fromYmd \<longleftrightarrow>
     (\<forall>y1 y2 m1 m2 d1 d2 s1 s2.
        y1 < y2 \<and> fromYmd y1 m1 d1 = Some s1 \<and> fromYmd y2 m2 d2 = Some s2
        \<longrightarrow> isSameOrAfter s2 s1 \<and> s1 \<noteq> s2)"

text \<open>
  The equations of the two loops are used one step at a time, not as rewrite rules.
\<close>

declare findNextSolarFrom.simps [simp del]

declare buildRangeLoop.simps [simp del]

section \<open>Leap month resolution: properties\<close>

text \<open>
  C5. A lunar date that is not marked as leap resolves to its own month, not leap, in
  every target year and under every strategy value, whatever the calendar library says.
\<close>

theorem resolveLunarMonth_non_leap:
  assumes "\<not> isLeap lunar"
  shows "resolveLunarMonth getLeapMonth y lunar strategy
         = Some \<lparr>rmonth = month lunar, risLeap = False\<rparr>"
  using assms by (simp add: resolveLunarMonth_def)

theorem resolveLunarMonth_non_leap_witness:
  "\<not> isLeap \<lparr>year = 2023, month = 2, day = 10, isLeap = False\<rparr> \<and>
   resolveLunarMonth sampleLeapMonth 2024 \<lparr>year = 2023, month = 2, day = 10, isLeap = False\<rparr>
     (Strategy Strict) = Some \<lparr>rmonth = 2, risLeap = False\<rparr>"
  using resolveLunarMonth_non_leap
    [of "\<lparr>year = 2023, month = 2, day = 10, isLeap = False\<rparr>" sampleLeapMonth 2024
        "Strategy Strict"]
  by simp

lemma yearHasLeapMonth_iff:
  "yearHasLeapMonth g y m \<longleftrightarrow> hasLeapMonth g y m \<or> (m = 0 \<and> g y = Some 0)"
  by (auto simp add: yearHasLeapMonth_def hasLeapMonth_def split: option.splits)

text \<open>
  What resolution does with a leap lunar date, for every month and every strategy value:
  the library's answer is compared with the month as it is.
\<close>

lemma resolveLunarMonth_leap_cases:
  assumes "isLeap lunar"
  shows "resolveLunarMonth g y lunar strategy =
     (if g y = Some (month lunar)
      then (if strategy \<in> {Strategy Strict, Strategy Forward, Strategy Backward}
            then Some \<lparr>rmonth = month lunar, risLeap = True\<rparr> else None)
      else if strategy = Strategy Forward then Some \<lparr>rmonth = month lunar, risLeap = False\<rparr>
      else if strategy = Strategy Backward
        then Some \<lparr>rmonth = (if month lunar = 12 then 12 else month lunar + 1),
                    risLeap = False\<rparr>
      else None)"
  using assms
  by (auto simp add: resolveLunarMonth_def yearHasLeapMonth_def split: option.splits)

text \<open>
  C4, as stated, at month 0: the string with year 2023, leap marker, month 00 and day 10
  is accepted by \<open>parseLunar\<close>. The year 2024 of the sample library has no leap month,
  so the library answers 0, which equals the month: under the strict strategy the source
  returns month 0, leap, where the claim says no result.
\<close>

theorem resolveLunarMonth_strict_month_0:
  "parseLunar (js ''2023-'' @ LEAP_MARKER @ js ''00-10'')
     = Some \<lparr>year = 2023, month = 0, day = 10, isLeap = True\<rparr> \<and>
   sampleLeapMonth 2024 = Some 0 \<and>
   \<not> hasLeapMonth sampleLeapMonth 2024 0 \<and>
   resolveLunarMonth sampleLeapMonth 2024 \<lparr>year = 2023, month = 0, day = 10, isLeap = True\<rparr>
     (Strategy Strict) = Some \<lparr>rmonth = 0, risLeap = True\<rparr>"
  by (simp add: parseLunar_def js_def Let_def skipOptional_def startsWith_def LUNAR_TAG_def
      LEAP_MARKER_def isDigits_def isDigit_def Number_def isWhiteSpace_def
      resolveLunarMonth_def yearHasLeapMonth_def sampleLeapMonth_def hasLeapMonth_def)

text \<open>
  C4, amended. For a leap lunar date whose month is not 0, under the strict strategy:
  resolution gives no result exactly when the target year's lunar calendar has no leap
  month equal to the date's month (a failing library call counts as no leap month); when
  the year has that leap month, the result is the same month, leap.
\<close>

theorem resolveLunarMonth_strict:
  assumes "isLeap lunar" and "month lunar \<noteq> 0"
  shows "(resolveLunarMonth getLeapMonth y lunar (Strategy Strict) = None
            \<longleftrightarrow> \<not> hasLeapMonth getLeapMonth y (month lunar)) \<and>
         (hasLeapMonth getLeapMonth y (month lunar) \<longrightarrow>
            resolveLunarMonth getLeapMonth y lunar (Strategy Strict)
            = Some \<lparr>rmonth = month lunar, risLeap = True\<rparr>)"
  using assms
  by (auto simp add: resolveLunarMonth_def yearHasLeapMonth_iff hasLeapMonth_def)

theorem resolveLunarMonth_strict_witness:
  "isLeap \<lparr>year = 2023, month = 2, day = 10, isLeap = True\<rparr> \<and>
   month \<lparr>year = 2023, month = 2, day = 10, isLeap = True\<rparr> \<noteq> 0 \<and>
   hasLeapMonth sampleLeapMonth 2025 2 \<and>
   resolveLunarMonth sampleLeapMonth 2025 \<lparr>year = 2023, month = 2, day = 10, isLeap = True\<rparr>
     (Strategy Strict) = Some \<lparr>rmonth = 2, risLeap = True\<rparr> \<and>
   \<not> hasLeapMonth sampleLeapMonth 2024 2 \<and>
   resolveLunarMonth sampleLeapMonth 2024 \<lparr>year = 2023, month = 2, day = 10, isLeap = True\<rparr>
     (Strategy Strict) = None"
  using resolveLunarMonth_strict
    [of "\<lparr>year = 2023, month = 2, day = 10, isLeap = True\<rparr>" sampleLeapMonth 2025]
    resolveLunarMonth_strict
    [of "\<lparr>year = 2023, month = 2, day = 10, isLeap = True\<rparr>" sampleLeapMonth 2024]
  by (simp add: sampleLeapMonth_def hasLeapMonth_def)

text \<open>
  C3, as stated, at two months that \<open>parseLunar\<close> accepts with the leap marker, in the
  year 2024 of the sample library, which has no leap month. At month 13 the source adds
  one to the month, giving 14 where \<open>min (13 + 1) 12\<close> is 12. At month 0 the library's
  answer 0 equals the month, so the source returns month 0, leap, where the claim says
  month \<open>min (0 + 1) 12\<close>, not leap.
\<close>

theorem resolveLunarMonth_backward_months_0_and_13:
  "parseLunar (js ''2023-'' @ LEAP_MARKER @ js ''13-01'')
     = Some \<lparr>year = 2023, month = 13, day = 1, isLeap = True\<rparr> \<and>
   \<not> hasLeapMonth sampleLeapMonth 2024 13 \<and>
   resolveLunarMonth sampleLeapMonth 2024 \<lparr>year = 2023, month = 13, day = 1, isLeap = True\<rparr>
     (Strategy Backward) = Some \<lparr>rmonth = 14, risLeap = False\<rparr> \<and>
   min (13 + 1) 12 \<noteq> (14 :: int) \<and>
   parseLunar (js ''2023-'' @ LEAP_MARKER @ js ''00-10'')
     = Some \<lparr>year = 2023, month = 0, day = 10, isLeap = True\<rparr> \<and>
   \<not> hasLeapMonth sampleLeapMonth 2024 0 \<and>
   resolveLunarMonth sampleLeapMonth 2024 \<lparr>year = 2023, month = 0, day = 10, isLeap = True\<rparr>
     (Strategy Backward) = Some \<lparr>rmonth = 0, risLeap = True\<rparr> \<and>
   \<lparr>rmonth = 0, risLeap = True\<rparr> \<noteq> \<lparr>rmonth = min (0 + 1) 12, risLeap = False\<rparr>"
  by (simp add: parseLunar_def js_def Let_def skipOptional_def startsWith_def LUNAR_TAG_def
      LEAP_MARKER_def isDigits_def isDigit_def Number_def isWhiteSpace_def
      resolveLunarMonth_def yearHasLeapMonth_def sampleLeapMonth_def hasLeapMonth_def)

text \<open>
  C3, amended. For a leap lunar date whose month is not 0, under the backward strategy:
  when the target year's lunar calendar has a leap month equal to the date's month, the
  result is that month, leap; when it has not, the result is not leap and its month is
  12 when the date's month is 12 and the date's month plus one when it is not. For every
  month up to 12 this is \<open>min (month + 1) 12\<close>, and for month 12 it is 12.
\<close>

theorem resolveLunarMonth_backward:
  assumes "isLeap lunar" and "month lunar \<noteq> 0"
  shows "(hasLeapMonth getLeapMonth y (month lunar) \<longrightarrow>
            resolveLunarMonth getLeapMonth y lunar (Strategy Backward)
            = Some \<lparr>rmonth = month lunar, risLeap = True\<rparr>) \<and>
         (\<not> hasLeapMonth getLeapMonth y (month lunar) \<longrightarrow>
            resolveLunarMonth getLeapMonth y lunar (Strategy Backward)
            = Some \<lparr>rmonth = (if month lunar = 12 then 12 else month lunar + 1),
                     risLeap = False\<rparr>) \<and>
         (\<not> hasLeapMonth getLeapMonth y (month lunar) \<and> month lunar \<le> 12 \<longrightarrow>
            resolveLunarMonth getLeapMonth y lunar (Strategy Backward)
            = Some \<lparr>rmonth = min (month lunar + 1) 12, risLeap = False\<rparr>)"
  using assms
  by (auto simp add: resolveLunarMonth_def yearHasLeapMonth_iff hasLeapMonth_def)

theorem resolveLunarMonth_backward_witness:
  "isLeap \<lparr>year = 2020, month = 12, day = 5, isLeap = True\<rparr> \<and>
   month \<lparr>year = 2020, month = 12, day = 5, isLeap = True\<rparr> \<noteq> 0 \<and>
   \<not> hasLeapMonth sampleLeapMonth 2024 12 \<and> (12 :: int) \<le> 12 \<and>
   resolveLunarMonth sampleLeapMonth 2024 \<lparr>year = 2020, month = 12, day = 5, isLeap = True\<rparr>
     (Strategy Backward) = Some \<lparr>rmonth = 12, risLeap = False\<rparr> \<and>
   isLeap \<lparr>year = 2023, month = 2, day = 10, isLeap = True\<rparr> \<and>
   month \<lparr>year = 2023, month = 2, day = 10, isLeap = True\<rparr> \<noteq> 0 \<and>
   hasLeapMonth sampleLeapMonth 2025 2 \<and>
   resolveLunarMonth sampleLeapMonth 2025 \<lparr>year = 2023, month = 2, day = 10, isLeap = True\<rparr>
     (Strategy Backward) = Some \<lparr>rmonth = 2, risLeap = True\<rparr>"
  using resolveLunarMonth_backward
    [of "\<lparr>year = 2020, month = 12, day = 5, isLeap = True\<rparr>" sampleLeapMonth 2024]
    resolveLunarMonth_backward
    [of "\<lparr>year = 2023, month = 2, day = 10, isLeap = True\<rparr>" sampleLeapMonth 2025]
  by (simp add: sampleLeapMonth_def hasLeapMonth_def)

section \<open>parseLunar: properties\<close>

lemma Number_bounds_aux:
  "list_all isDigit s \<Longrightarrow> 0 \<le> acc \<Longrightarrow>
   0 \<le> foldl (\<lambda>acc c. 10 * acc + (int c - 48)) acc s \<and>
   foldl (\<lambda>acc c. 10 * acc + (int c - 48)) acc s < (acc + 1) * 10 ^ length s"
proof (induction s arbitrary: acc)
  case Nil
  then show ?case by simp
next
  case (Cons c cs)
  from Cons.prems have rest: "list_all isDigit cs" by simp
  from Cons.prems have "isDigit c" by simp
  then have d: "48 \<le> c" "c \<le> 57" by (simp_all add: isDigit_def)
  let ?a = "10 * acc + (int c - 48)"
  have a0: "0 \<le> ?a" using d Cons.prems(2) by simp
  have a1: "?a + 1 \<le> (acc + 1) * 10" using d by simp
  from Cons.IH[OF rest a0] have ih0: "0 \<le> foldl (\<lambda>acc c. 10 * acc + (int c - 48)) ?a cs"
    and ih1: "foldl (\<lambda>acc c. 10 * acc + (int c - 48)) ?a cs < (?a + 1) * 10 ^ length cs"
    by simp_all
  have "(?a + 1) * 10 ^ length cs \<le> ((acc + 1) * 10) * 10 ^ length cs"
    using a1 by (intro mult_right_mono) simp_all
  also have "\<dots> = (acc + 1) * 10 ^ length (c # cs)" by simp
  finally have le: "(?a + 1) * 10 ^ length cs \<le> (acc + 1) * 10 ^ length (c # cs)" .
  have lt: "foldl (\<lambda>acc c. 10 * acc + (int c - 48)) ?a cs < (acc + 1) * 10 ^ length (c # cs)"
    using ih1 le by (rule less_le_trans)
  show ?case unfolding foldl_Cons using ih0 lt by (rule conjI)
qed

lemma Number_bounds: "isDigits n s \<Longrightarrow> 0 \<le> Number s \<and> Number s < 10 ^ n"
  using Number_bounds_aux[of s 0] by (simp add: isDigits_def Number_def)

text \<open>
  C7, as stated, fails: the string \<open>2023-13-45\<close> has the accepted shape and is returned
  with month 13 and day 45.
\<close>

theorem parseLunar_month_13_day_45:
  "parseLunar (js ''2023-13-45'')
     = Some \<lparr>year = 2023, month = 13, day = 45, isLeap = False\<rparr> \<and>
   \<not> ((13 :: int) \<le> 12) \<and> \<not> ((45 :: int) \<le> 30)"
  by (simp add: parseLunar_def js_def Let_def skipOptional_def startsWith_def LUNAR_TAG_def
      LEAP_MARKER_def isDigits_def isDigit_def Number_def isWhiteSpace_def)

text \<open>
  C7, amended. Every lunar date that \<open>parseLunar\<close> returns has a month and a day that
  are integers from 0 to 99, the values of two decimal digits, and a year from 0 to 9999.
\<close>

theorem parseLunar_ranges:
  assumes "parseLunar raw = Some l"
  shows "0 \<le> year l \<and> year l \<le> 9999 \<and> 0 \<le> month l \<and> month l \<le> 99
         \<and> 0 \<le> day l \<and> day l \<le> 99"
proof -
  obtain ys ms ds lp
    where l: "l = \<lparr>year = Number ys, month = Number ms, day = Number ds, isLeap = lp\<rparr>"
      and dg: "isDigits 4 ys" "isDigits 2 ms" "isDigits 2 ds"
    using assms by (auto simp add: parseLunar_def Let_def split: if_splits)
  from Number_bounds[OF dg(1)] Number_bounds[OF dg(2)] Number_bounds[OF dg(3)] l
  show ?thesis by simp
qed

theorem parseLunar_ranges_witness:
  "parseLunar (js ''2023-00-99'')
     = Some \<lparr>year = 2023, month = 0, day = 99, isLeap = False\<rparr> \<and>
   (0 :: int) \<le> 2023 \<and> (2023 :: int) \<le> 9999 \<and> (0 :: int) \<le> 0 \<and> (0 :: int) \<le> 99
   \<and> (99 :: int) \<le> 99"
proof -
  have p: "parseLunar (js ''2023-00-99'')
             = Some \<lparr>year = 2023, month = 0, day = 99, isLeap = False\<rparr>"
    by (simp add: parseLunar_def js_def Let_def skipOptional_def startsWith_def LUNAR_TAG_def
        LEAP_MARKER_def isDigits_def isDigit_def Number_def isWhiteSpace_def)
  from parseLunar_ranges[OF p] p show ?thesis by simp
qed

section \<open>parseLeapStrategy: properties\<close>

lemma lookup_keys:
  "(key, v) \<in> set LEAP_STRATEGY_LOOKUP \<Longrightarrow>
   map_of LEAP_STRATEGY_LOOKUP key = Some v \<and> key \<noteq> []
   \<and> \<not> isWhiteSpace (hd key) \<and> \<not> isWhiteSpace (last key)"
  by (auto simp add: LEAP_STRATEGY_LOOKUP_def js_def isWhiteSpace_def)

lemma trim_surround:
  assumes "list_all isWhiteSpace pre" "list_all isWhiteSpace post"
    "s \<noteq> []" "\<not> isWhiteSpace (hd s)" "\<not> isWhiteSpace (last s)"
  shows "trim (pre @ s @ post) = s"
proof -
  from assms(1,2) have ws: "\<forall>c\<in>set pre. isWhiteSpace c" "\<forall>c\<in>set post. isWhiteSpace c"
    by (simp_all add: list_all_iff)
  have a: "dropWhile isWhiteSpace (pre @ s @ post) = s @ post"
    using ws assms(3,4) by (cases s) (simp_all add: dropWhile_append1 dropWhile_append2)
  have b: "dropWhile isWhiteSpace (rev post @ rev s) = rev s"
    using ws assms(3,5)
    by (cases "rev s") (auto simp add: dropWhile_append2 dropWhile_append3 last_rev hd_rev)
  show ?thesis by (simp add: trim_def a b)
qed

text \<open>
  What \<open>parseLeapStrategy\<close> returns, case by case: the fallback for a value that is not
  a string; for a string, after trimming, the variant of a recognized string, the
  inherited member for a property name of \<open>Object.prototype\<close>, and the fallback for
  anything else.
\<close>

lemma parseLeapStrategy_cases:
  "parseLeapStrategy v fallback =
     (case v of
        JString s \<Rightarrow>
          (case map_of LEAP_STRATEGY_LOOKUP (trim s) of
             Some x \<Rightarrow> Strategy x
           | None \<Rightarrow>
               if trim s \<in> set OBJECT_PROTOTYPE_KEYS then Inherited (trim s)
               else Strategy fallback)
      | _ \<Rightarrow> Strategy fallback)"
  by (simp add: parseLeapStrategy_def lookupStrategy_def split: jsvalue.splits option.splits)

text \<open>
  C8 at the string \<open>constructor\<close> with fallback forward: the lookup finds the member
  inherited from \<open>Object.prototype\<close>, which is truthy, and returns it. The result is
  none of the three variants and not the fallback.
\<close>

theorem parseLeapStrategy_constructor:
  "parseLeapStrategy (JString (js ''constructor'')) Forward = Inherited (js ''constructor'')"
  by (simp add: parseLeapStrategy_def lookupStrategy_def trim_def js_def isWhiteSpace_def
      LEAP_STRATEGY_LOOKUP_def OBJECT_PROTOTYPE_KEYS_def)

text \<open>
  C10. A recognized strategy string with any white space before and after it maps to
  the variant of that string, not to the fallback.
\<close>

theorem parseLeapStrategy_trims:
  assumes "(key, v) \<in> set LEAP_STRATEGY_LOOKUP"
    and "list_all isWhiteSpace pre" and "list_all isWhiteSpace post"
  shows "parseLeapStrategy (JString (pre @ key @ post)) fallback = Strategy v"
proof -
  from lookup_keys[OF assms(1)] have k: "map_of LEAP_STRATEGY_LOOKUP key = Some v"
    and t: "trim (pre @ key @ post) = key"
    using trim_surround[OF assms(2,3)] by simp_all
  show ?thesis by (simp add: parseLeapStrategy_def lookupStrategy_def t k)
qed

theorem parseLeapStrategy_trims_witness:
  "(js ''backward'', Backward) \<in> set LEAP_STRATEGY_LOOKUP \<and>
   list_all isWhiteSpace [32, 9] \<and> list_all isWhiteSpace [12288, 10] \<and>
   parseLeapStrategy (JString ([32, 9] @ js ''backward'' @ [12288, 10])) Strict
     = Strategy Backward"
proof -
  have a: "(js ''backward'', Backward) \<in> set LEAP_STRATEGY_LOOKUP"
    by (simp add: LEAP_STRATEGY_LOOKUP_def)
  have b: "list_all isWhiteSpace [32, 9]" by (simp add: isWhiteSpace_def)
  have c: "list_all isWhiteSpace [12288, 10]" by (simp add: isWhiteSpace_def)
  from parseLeapStrategy_trims[OF a b c] a b c show ?thesis by simp
qed

section \<open>findNextSolar: properties\<close>

lemma isSameOrAfter_refl: "isSameOrAfter s s"
  by (simp add: isSameOrAfter_def)

lemma toSolar_fromYmd:
  "toSolar g c y lunar st = Some s \<Longrightarrow> \<exists>m d. c y m d = Some s"
  by (auto simp add: toSolar_def Let_def split: option.splits)

lemma candidate_Some:
  "candidate g c today lunar st k = Some s \<longleftrightarrow>
   toSolar g c (cyear today + int k) lunar st = Some s \<and> isSameOrAfter s today"
  by (auto simp add: candidate_def split: option.splits)

lemma candidate_None:
  "candidate g c today lunar st k = None \<longleftrightarrow>
   (\<forall>s. toSolar g c (cyear today + int k) lunar st = Some s \<longrightarrow> \<not> isSameOrAfter s today)"
  by (auto simp add: candidate_def split: option.splits)

lemma findNextSolarFrom_unfold:
  "findNextSolarFrom g c today lunar st i =
     (if i < MAX_SEARCH_YEARS then
        (case candidate g c today lunar st i of
           Some solar \<Rightarrow> Some solar
         | None \<Rightarrow> findNextSolarFrom g c today lunar st (Suc i))
      else None)"
  by (subst findNextSolarFrom.simps) (simp add: candidate_def Let_def split: option.splits)

text \<open>The loop from year \<open>i\<close> on gives nothing exactly when no later candidate year does.\<close>

lemma findNextSolarFrom_None:
  "findNextSolarFrom g c today lunar st i = None \<longleftrightarrow>
   (\<forall>k. i \<le> k \<and> k < MAX_SEARCH_YEARS \<longrightarrow> candidate g c today lunar st k = None)"
proof (induction "MAX_SEARCH_YEARS - i" arbitrary: i)
  case 0
  then have "\<not> i < MAX_SEARCH_YEARS" by simp
  then show ?case by (subst findNextSolarFrom_unfold) auto
next
  case (Suc n)
  then have lt: "i < MAX_SEARCH_YEARS" and n: "n = MAX_SEARCH_YEARS - Suc i" by simp_all
  have span: "\<And>k. (i \<le> k \<and> k < MAX_SEARCH_YEARS)
                  \<longleftrightarrow> (k = i \<or> (Suc i \<le> k \<and> k < MAX_SEARCH_YEARS))"
    using lt by auto
  show ?case
    by (subst findNextSolarFrom_unfold)
       (auto simp add: lt span Suc.hyps(1)[OF n] split: option.splits)
qed

text \<open>What the loop returns comes from the first candidate year that gives a date.\<close>

lemma findNextSolarFrom_Some:
  "findNextSolarFrom g c today lunar st i = Some s \<Longrightarrow>
   \<exists>k. i \<le> k \<and> k < MAX_SEARCH_YEARS \<and> candidate g c today lunar st k = Some s
       \<and> (\<forall>j. i \<le> j \<and> j < k \<longrightarrow> candidate g c today lunar st j = None)"
proof (induction "MAX_SEARCH_YEARS - i" arbitrary: i)
  case 0
  then have "\<not> i < MAX_SEARCH_YEARS" by simp
  with "0.prems" show ?case by (subst (asm) findNextSolarFrom_unfold) simp
next
  case (Suc n)
  then have lt: "i < MAX_SEARCH_YEARS" and n: "n = MAX_SEARCH_YEARS - Suc i" by simp_all
  show ?case
  proof (cases "candidate g c today lunar st i")
    case (Some solar)
    with Suc.prems lt have "solar = s" by (subst (asm) findNextSolarFrom_unfold) simp
    with Some lt show ?thesis by (intro exI[of _ i]) auto
  next
    case None
    with Suc.prems lt have "findNextSolarFrom g c today lunar st (Suc i) = Some s"
      by (subst (asm) findNextSolarFrom_unfold) simp
    from Suc.hyps(1)[OF n this] obtain k where k: "Suc i \<le> k" "k < MAX_SEARCH_YEARS"
      "candidate g c today lunar st k = Some s"
      "\<forall>j. Suc i \<le> j \<and> j < k \<longrightarrow> candidate g c today lunar st j = None"
      by blast
    have "\<forall>j. i \<le> j \<and> j < k \<longrightarrow> candidate g c today lunar st j = None"
    proof (intro allI impI)
      fix j assume j: "i \<le> j \<and> j < k"
      show "candidate g c today lunar st j = None"
      proof (cases "j = i")
        case True
        with None show ?thesis by simp
      next
        case False
        with j have "Suc i \<le> j \<and> j < k" by simp
        with k(4) show ?thesis by blast
      qed
    qed
    with k show ?thesis by (intro exI[of _ k]) simp
  qed
qed

lemma later_year_later_date:
  assumes "yearsInOrder c" and "j < k"
    and "toSolar g c (cyear today + int j) lunar st = Some s"
    and "toSolar g c (cyear today + int k) lunar st = Some s'"
  shows "isSameOrAfter s' s"
proof -
  from toSolar_fromYmd[OF assms(3)] obtain m1 d1
    where a: "c (cyear today + int j) m1 d1 = Some s" by blast
  from toSolar_fromYmd[OF assms(4)] obtain m2 d2
    where b: "c (cyear today + int k) m2 d2 = Some s'" by blast
  from assms(2) have "cyear today + int j < cyear today + int k" by simp
  with assms(1) a b show ?thesis unfolding yearsInOrder_def by blast
qed

lemma sampleFromYmd_in_order: "yearsInOrder sampleFromYmd"
  by (auto simp add: yearsInOrder_def sampleFromYmd_def isSameOrAfter_def split: if_splits)

text \<open>
  C1. The search window is the 80 years \<open>cyear today + k\<close> for \<open>k\<close> below
  \<open>MAX_SEARCH_YEARS\<close>, the current year first. \<open>findNextSolar\<close> returns no result exactly
  when no year of the window converts to a date on or after today. When it returns a
  date, that date is on or after today and is the conversion of a year of the window
  before which no year of the window converts to a date on or after today. With a
  calendar library that orders the years, it is also the earliest of all the dates on or
  after today that the years of the window convert to.
\<close>

theorem findNextSolar_first_on_or_after_today:
  "(findNextSolar g c today lunar st = None \<longleftrightarrow>
      (\<forall>k < MAX_SEARCH_YEARS. \<forall>s. toSolar g c (cyear today + int k) lunar st = Some s
                                   \<longrightarrow> \<not> isSameOrAfter s today)) \<and>
   (\<forall>s. findNextSolar g c today lunar st = Some s \<longrightarrow>
      isSameOrAfter s today \<and>
      (\<exists>k < MAX_SEARCH_YEARS.
         toSolar g c (cyear today + int k) lunar st = Some s \<and>
         (\<forall>j < k. \<forall>s'. toSolar g c (cyear today + int j) lunar st = Some s'
                        \<longrightarrow> \<not> isSameOrAfter s' today)) \<and>
      (yearsInOrder c \<longrightarrow>
         (\<forall>k < MAX_SEARCH_YEARS. \<forall>s'.
            toSolar g c (cyear today + int k) lunar st = Some s' \<and> isSameOrAfter s' today
            \<longrightarrow> isSameOrAfter s' s))) \<and>
   MAX_SEARCH_YEARS = 80"
proof (intro conjI allI impI)
  show "findNextSolar g c today lunar st = None \<longleftrightarrow>
      (\<forall>k < MAX_SEARCH_YEARS. \<forall>s. toSolar g c (cyear today + int k) lunar st = Some s
                                   \<longrightarrow> \<not> isSameOrAfter s today)"
    by (simp add: findNextSolar_def findNextSolarFrom_None candidate_None)
next
  show "MAX_SEARCH_YEARS = 80" by (simp add: MAX_SEARCH_YEARS_def)
next
  fix s assume f: "findNextSolar g c today lunar st = Some s"
  from findNextSolarFrom_Some[OF f[unfolded findNextSolar_def]]
  obtain k where k: "k < MAX_SEARCH_YEARS"
    "toSolar g c (cyear today + int k) lunar st = Some s" "isSameOrAfter s today"
    "\<forall>j < k. \<forall>s'. toSolar g c (cyear today + int j) lunar st = Some s'
                   \<longrightarrow> \<not> isSameOrAfter s' today"
    by (auto simp add: candidate_Some candidate_None)
  show "isSameOrAfter s today" by (rule k(3))
  show "\<exists>k < MAX_SEARCH_YEARS.
         toSolar g c (cyear today + int k) lunar st = Some s \<and>
         (\<forall>j < k. \<forall>s'. toSolar g c (cyear today + int j) lunar st = Some s'
                        \<longrightarrow> \<not> isSameOrAfter s' today)"
    using k by blast
  fix k' s'
  assume ord: "yearsInOrder c" and k': "k' < MAX_SEARCH_YEARS"
    and c': "toSolar g c (cyear today + int k') lunar st = Some s' \<and> isSameOrAfter s' today"
  show "isSameOrAfter s' s"
  proof (cases "k' = k")
    case True
    with c' k(2) show ?thesis by (simp add: isSameOrAfter_refl)
  next
    case False
    from c' k(4) have "\<not> k' < k" by blast
    with False have "k < k'" by simp
    from later_year_later_date[OF ord this k(2)] c' show ?thesis by blast
  qed
qed

text \<open>
  Today is 1 March 2025 and the date is the 10th of a leap second month, strict. The
  sample library has that leap month in 2025, 2028, 2031: the date of 2025 is past, so
  2028 is returned, and it is not after the date of 2031.
\<close>

theorem findNextSolar_first_on_or_after_today_witness:
  "yearsInOrder sampleFromYmd \<and>
   findNextSolar sampleLeapMonth sampleFromYmd (CalendarDate 2025 3 1)
     \<lparr>year = 2023, month = 2, day = 10, isLeap = True\<rparr> (Strategy Strict)
     = Some (CalendarDate 2028 2 10) \<and>
   isSameOrAfter (CalendarDate 2028 2 10) (CalendarDate 2025 3 1) \<and>
   toSolar sampleLeapMonth sampleFromYmd (cyear (CalendarDate 2025 3 1) + int 6)
     \<lparr>year = 2023, month = 2, day = 10, isLeap = True\<rparr> (Strategy Strict)
     = Some (CalendarDate 2031 2 10) \<and>
   isSameOrAfter (CalendarDate 2031 2 10) (CalendarDate 2025 3 1) \<and>
   isSameOrAfter (CalendarDate 2031 2 10) (CalendarDate 2028 2 10)"
proof -
  let ?l = "\<lparr>year = 2023, month = 2, day = 10, isLeap = True\<rparr>"
  let ?today = "CalendarDate 2025 3 1"
  have f: "findNextSolar sampleLeapMonth sampleFromYmd ?today ?l (Strategy Strict)
             = Some (CalendarDate 2028 2 10)"
    by (simp add: findNextSolar_def findNextSolarFrom.simps MAX_SEARCH_YEARS_def toSolar_def
        resolveLunarMonth_def yearHasLeapMonth_def sampleLeapMonth_def sampleFromYmd_def
        isSameOrAfter_def Let_def)
  have t: "toSolar sampleLeapMonth sampleFromYmd (cyear ?today + int 6) ?l (Strategy Strict)
             = Some (CalendarDate 2031 2 10)"
    by (simp add: toSolar_def resolveLunarMonth_def yearHasLeapMonth_def sampleLeapMonth_def
        sampleFromYmd_def)
  have a: "isSameOrAfter (CalendarDate 2031 2 10) ?today"
    by (simp add: isSameOrAfter_def)
  have w: "(6 :: nat) < MAX_SEARCH_YEARS" by (simp add: MAX_SEARCH_YEARS_def)
  from findNextSolar_first_on_or_after_today
         [of sampleLeapMonth sampleFromYmd ?today ?l "Strategy Strict"] f
  have here: "isSameOrAfter (CalendarDate 2028 2 10) ?today"
    and rest: "yearsInOrder sampleFromYmd \<longrightarrow>
         (\<forall>k < MAX_SEARCH_YEARS. \<forall>s'.
            toSolar sampleLeapMonth sampleFromYmd (cyear ?today + int k) ?l (Strategy Strict)
              = Some s' \<and> isSameOrAfter s' ?today
            \<longrightarrow> isSameOrAfter s' (CalendarDate 2028 2 10))"
    by blast+
  from rest sampleFromYmd_in_order w t a
  have "isSameOrAfter (CalendarDate 2031 2 10) (CalendarDate 2028 2 10)" by blast
  with sampleFromYmd_in_order f here t a show ?thesis by blast
qed

section \<open>Key templates: properties\<close>

lemma escapeScan_literal:
  "literalOnly p \<Longrightarrow> escapeScan lit p = wrapLiteral (lit @ p)"
  by (induction p arbitrary: lit) simp_all

lemma escapeLiteralForMoment_literal:
  "literalOnly p \<Longrightarrow> escapeLiteralForMoment p = wrapLiteral p"
  by (simp add: escapeLiteralForMoment_def escapeScan_literal)

lemma escaped_no_open:
  "91 \<notin> set (p :: jsstring) \<Longrightarrow>
   91 \<notin> set (concat (map (\<lambda>c. if c = 93 then [92, 93] else [c]) p))"
  by (induction p) auto

lemma escaped_same:
  "93 \<notin> set (p :: jsstring) \<Longrightarrow> concat (map (\<lambda>c. if c = 93 then [92, 93] else [c]) p) = p"
  by (induction p) auto

text \<open>
  With a formatter for which bracket-delimited text is literal, a pattern that is not
  empty, is literal text only and has no opening bracket formats to itself with a
  backslash before each closing bracket, on every date.
\<close>

lemma format_escaped_literal:
  assumes "bracketsLiteral format" and "literalOnly p" and "p \<noteq> []" and "91 \<notin> set p"
  shows "format d (escapeLiteralForMoment p)
         = concat (map (\<lambda>c. if c = 93 then [92, 93] else [c]) p)"
proof -
  have "escapeLiteralForMoment p
        = 91 # concat (map (\<lambda>c. if c = 93 then [92, 93] else [c]) p) @ [93]"
    using assms(2,3) by (simp add: escapeLiteralForMoment_literal wrapLiteral_def js_def)
  with assms(1) escaped_no_open[OF assms(4)] show ?thesis
    by (simp add: bracketsLiteral_def)
qed

text \<open>So a literal pattern without brackets formats to itself.\<close>

lemma format_escaped_literal_no_brackets:
  assumes "bracketsLiteral format" and "literalOnly p" and "p \<noteq> []"
    and "91 \<notin> set p" and "93 \<notin> set p"
  shows "format d (escapeLiteralForMoment p) = p"
  using format_escaped_literal[OF assms(1-4)] escaped_same[OF assms(5)] by simp

lemma bracketFormat_bracketsLiteral: "bracketsLiteral bracketFormat"
  by (auto simp add: bracketsLiteral_def bracketFormat_def)

text \<open>The example of the settings page: the hyphen is wrapped, the rest is kept.\<close>

lemma escapeLiteralForMoment_default_pattern:
  "escapeLiteralForMoment (js ''[birthday]-YYYY'') = js ''[birthday][-]YYYY''"
  by (simp add: escapeLiteralForMoment_def js_def matchToken_def startsWith_def
      TOKEN_ALTERNATIVES_def wrapLiteral_def isLineTerminator_def)

text \<open>
  C6 at the pattern \<open>note]\<close>: it is literal text only, \<open>tokenRe\<close> matches nowhere in it.
  \<open>wrapLiteral\<close> puts a backslash before the closing bracket and wraps the whole in
  brackets. The formatter returns the text between the outer brackets, so the result has
  the backslash that the pattern does not have.
\<close>

theorem escapeLiteralForMoment_closing_bracket:
  "literalOnly (js ''note]'') \<and>
   escapeLiteralForMoment (js ''note]'') = js ''[note'' @ [92] @ js '']]'' \<and>
   bracketFormat (CalendarDate 2025 3 1) (escapeLiteralForMoment (js ''note]''))
     = js ''note'' @ [92] @ js '']'' \<and>
   js ''note'' @ [92] @ js '']'' \<noteq> js ''note]''"
  by (simp add: escapeLiteralForMoment_def js_def matchToken_def startsWith_def
      TOKEN_ALTERNATIVES_def wrapLiteral_def bracketFormat_def)

section \<open>Range output: properties\<close>

text \<open>
  The loop visits the years of the window in ascending order, drops those without a
  conversion, and makes one assignment for each of the others.
\<close>

lemma buildRangeLoop_fold:
  "buildRangeLoop g c f lunar st kp df y hi result =
     foldl (\<lambda>obj solar. objSet obj (f solar kp) (f solar df)) result
       (List.map_filter (\<lambda>y. toSolar g c y lunar st) [y..hi])"
proof (induction "nat (hi + 1 - y)" arbitrary: y result)
  case 0
  then have "\<not> y \<le> hi" by simp
  then show ?case by (subst buildRangeLoop.simps) (simp add: map_filter_simps)
next
  case (Suc n)
  then have le: "y \<le> hi" and n: "n = nat (hi + 1 - (y + 1))" by simp_all
  from le have up: "[y..hi] = y # [y + 1..hi]" by (simp add: upto_rec1)
  show ?case
    by (subst buildRangeLoop.simps)
       (simp add: le up map_filter_simps Suc.hyps(1)[OF n] split: option.splits)
qed

lemma buildRangeOutputs_fold:
  "buildRangeOutputs g c f lunar st s center =
     foldl (\<lambda>obj solar. objSet obj (f solar (escapeLiteralForMoment (outputKeyPattern s)))
                           (f solar (outputDateFormat s))) []
       (List.map_filter (\<lambda>y. toSolar g c y lunar st)
          [center - rangePast s..center + rangeFuture s])"
  by (simp add: buildRangeOutputs_def buildRangeLoop_fold)

lemma map_of_objSet:
  "map_of (objSet obj k v)
   = (if k = js ''__proto__'' then map_of obj else (map_of obj)(k \<mapsto> v))"
  by (simp add: objSet_def update_conv')

lemma distinct_objSet: "distinct (map fst obj) \<Longrightarrow> distinct (map fst (objSet obj k v))"
  by (simp add: objSet_def distinct_update)

lemma proto_objSet:
  "js ''__proto__'' \<notin> fst ` set obj \<Longrightarrow> js ''__proto__'' \<notin> fst ` set (objSet obj k v)"
  by (simp add: objSet_def dom_update)

lemma objSet_fold_keys:
  "distinct (map fst obj) \<and> js ''__proto__'' \<notin> fst ` set obj \<Longrightarrow>
   distinct (map fst (foldl (\<lambda>obj x. objSet obj (kf x) (vf x)) obj xs)) \<and>
   js ''__proto__'' \<notin> fst ` set (foldl (\<lambda>obj x. objSet obj (kf x) (vf x)) obj xs)"
proof (induction xs arbitrary: obj)
  case Nil
  then show ?case by simp
next
  case (Cons x xs)
  have "distinct (map fst (objSet obj (kf x) (vf x)))
        \<and> js ''__proto__'' \<notin> fst ` set (objSet obj (kf x) (vf x))"
    using Cons.prems distinct_objSet proto_objSet by blast
  from Cons.IH[OF this] show ?case by simp
qed

text \<open>
  Last write wins: the entries are those of the assignments read from the last to the
  first, without the assignments to \<open>__proto__\<close>, which store nothing.
\<close>

lemma map_of_objSet_fold:
  "map_of (foldl (\<lambda>obj x. objSet obj (kf x) (vf x)) obj xs) =
   map_of obj ++
   map_of (rev (filter (\<lambda>e. fst e \<noteq> js ''__proto__'') (map (\<lambda>x. (kf x, vf x)) xs)))"
proof (induction xs arbitrary: obj)
  case Nil
  then show ?case by simp
next
  case (Cons x xs)
  show ?case by (simp add: Cons.IH map_of_objSet map_add_upd_left map_of_append)
qed

lemma buildRangeOutputs_entries:
  "map_of (buildRangeOutputs g c f lunar st s center) =
   map_of (rev (filter (\<lambda>e. fst e \<noteq> js ''__proto__'')
     (map (\<lambda>solar. (f solar (escapeLiteralForMoment (outputKeyPattern s)),
                      f solar (outputDateFormat s)))
        (List.map_filter (\<lambda>y. toSolar g c y lunar st)
           [center - rangePast s..center + rangeFuture s]))))"
  by (simp add: buildRangeOutputs_fold map_of_objSet_fold)

lemma foldl_objSet_empty:
  "foldl (\<lambda>obj x. objSet obj (kf x) (vf x)) obj xs = [] \<longleftrightarrow>
   obj = [] \<and> (\<forall>x \<in> set xs. kf x = js ''__proto__'')"
proof (induction xs arbitrary: obj)
  case Nil
  then show ?case by simp
next
  case (Cons x xs)
  have "objSet obj (kf x) (vf x) = [] \<longleftrightarrow> obj = [] \<and> kf x = js ''__proto__''"
    by (cases obj) (auto simp add: objSet_def)
  then show ?case by (auto simp add: Cons.IH)
qed

lemma set_map_filter: "set (List.map_filter h xs) = {y. \<exists>x \<in> set xs. h x = Some y}"
  by (induction xs) (auto split: option.splits)

text \<open>
  The result is empty exactly when every year of the window that converts formats to the
  key \<open>__proto__\<close>; with no such key, exactly when no year of the window converts.
\<close>

lemma buildRangeOutputs_empty:
  "buildRangeOutputs g c f lunar st s center = [] \<longleftrightarrow>
   (\<forall>y solar. center - rangePast s \<le> y \<and> y \<le> center + rangeFuture s
               \<and> toSolar g c y lunar st = Some solar
      \<longrightarrow> f solar (escapeLiteralForMoment (outputKeyPattern s)) = js ''__proto__'')"
  unfolding buildRangeOutputs_fold foldl_objSet_empty set_map_filter
  by (simp add: Bex_def) (metis atLeastAtMost_iff)

text \<open>
  C2 at the key pattern \<open>__proto__\<close>, with one year before and after 2025: the three
  years of the window convert, each formats to the key \<open>__proto__\<close>, each assignment goes
  to the inherited setter and stores nothing, and the result has no entry.
\<close>

theorem buildRangeOutputs_proto_key:
  "map (\<lambda>y. toSolar sampleLeapMonth sampleFromYmd y
              \<lparr>year = 2023, month = 2, day = 10, isLeap = False\<rparr> (Strategy Forward))
     [2024, 2025, 2026]
     = [Some (CalendarDate 2024 2 10), Some (CalendarDate 2025 2 10),
        Some (CalendarDate 2026 2 10)] \<and>
   escapeLiteralForMoment (js ''__proto__'') = js ''[__proto__]'' \<and>
   bracketFormat (CalendarDate 2025 2 10) (js ''[__proto__]'') = js ''__proto__'' \<and>
   buildRangeOutputs sampleLeapMonth sampleFromYmd bracketFormat
     \<lparr>year = 2023, month = 2, day = 10, isLeap = False\<rparr> (Strategy Forward)
     (DEFAULT_SETTINGS\<lparr>outputKeyPattern := js ''__proto__''\<rparr>) 2025 = []"
  by (simp add: buildRangeOutputs_def buildRangeLoop.simps DEFAULT_SETTINGS_def
      escapeLiteralForMoment_def js_def matchToken_def startsWith_def TOKEN_ALTERNATIVES_def
      wrapLiteral_def isLineTerminator_def toSolar_def resolveLunarMonth_def
      sampleFromYmd_def objSet_def bracketFormat_def)

section \<open>Processing one document: properties\<close>

lemma writeEntry_other:
  "k \<noteq> fst e \<Longrightarrow> fst (writeEntry acc e) k = fst acc k"
  by (simp add: writeEntry_def setProp_def)

lemma writeEntry_stored:
  "fst e \<noteq> js ''__proto__'' \<Longrightarrow> fst (writeEntry acc e) (fst e) = Some (JString (snd e))"
  by (auto simp add: writeEntry_def setProp_def getProp_def split: option.splits)

lemma foldl_writeEntry_other:
  "k \<notin> fst ` set es \<Longrightarrow> fst (foldl writeEntry acc es) k = fst acc k"
  by (induction es arbitrary: acc) (simp_all add: writeEntry_other)

text \<open>After the \<open>forEach\<close>, every entry of the updates is in the data.\<close>

lemma foldl_writeEntry_stored:
  assumes "distinct (map fst es)" and "js ''__proto__'' \<notin> fst ` set es" and "e \<in> set es"
  shows "fst (foldl writeEntry acc es) (fst e) = Some (JString (snd e))"
  using assms
proof (induction es arbitrary: acc)
  case Nil
  then show ?case by simp
next
  case (Cons x xs)
  show ?case
  proof (cases "e = x")
    case True
    with Cons.prems have "fst x \<notin> fst ` set xs" "fst x \<noteq> js ''__proto__''" by auto
    with True show ?thesis by (simp add: foldl_writeEntry_other writeEntry_stored)
  next
    case False
    with Cons.prems
    have "distinct (map fst xs)" "js ''__proto__'' \<notin> fst ` set xs" "e \<in> set xs" by auto
    from Cons.IH[OF this] show ?thesis by simp
  qed
qed

text \<open>On data that holds every entry already, the \<open>forEach\<close> changes nothing.\<close>

lemma foldl_writeEntry_fixed:
  assumes "\<forall>e \<in> set es. data (fst e) = Some (JString (snd e))"
  shows "foldl writeEntry (data, b) es = (data, b)"
  using assms by (induction es) (simp_all add: writeEntry_def getProp_def)

lemma writeFrontmatter_again:
  assumes "distinct (map fst updates)" and "js ''__proto__'' \<notin> fst ` set updates"
  shows "writeFrontmatter (snd (writeFrontmatter doc updates)) updates
         = (False, snd (writeFrontmatter doc updates))"
proof -
  let ?data = "case frontmatter doc of Some d \<Rightarrow> d | None \<Rightarrow> Map.empty"
  let ?acc = "foldl writeEntry (?data, False) updates"
  have stored: "\<forall>e \<in> set updates. fst ?acc (fst e) = Some (JString (snd e))"
    using foldl_writeEntry_stored[OF assms] by blast
  show ?thesis
  proof (cases "snd ?acc")
    case False
    then have "writeFrontmatter doc updates = (False, doc)"
      by (simp add: writeFrontmatter_def Let_def)
    then show ?thesis by simp
  next
    case True
    then have w: "snd (writeFrontmatter doc updates) = doc\<lparr>frontmatter := Some (fst ?acc)\<rparr>"
      by (simp add: writeFrontmatter_def Let_def)
    from foldl_writeEntry_fixed[OF stored, of False]
    show ?thesis by (simp add: w writeFrontmatter_def Let_def)
  qed
qed

text \<open>
  The writes go to distinct keys, so the order in which the entries are enumerated does
  not matter: each key ends with the value of its entry, and the flag is raised exactly
  when some entry differs from what the data held.
\<close>

lemma foldl_writeEntry_lookup:
  assumes "distinct (map fst es)" and "js ''__proto__'' \<notin> fst ` set es"
  shows "fst (foldl writeEntry acc es) k
         = (case map_of es k of Some v \<Rightarrow> Some (JString v) | None \<Rightarrow> fst acc k)"
proof (cases "map_of es k")
  case None
  then have "k \<notin> fst ` set es" by (simp add: map_of_eq_None_iff)
  with None show ?thesis by (simp add: foldl_writeEntry_other)
next
  case (Some v)
  then have "(k, v) \<in> set es" by (rule map_of_SomeD)
  from foldl_writeEntry_stored[OF assms this, of acc] Some show ?thesis by simp
qed

lemma foldl_writeEntry_flag:
  assumes "distinct (map fst es)"
  shows "snd (foldl writeEntry (data, b) es)
         \<longleftrightarrow> b \<or> (\<exists>e \<in> set es. getProp data (fst e) \<noteq> JString (snd e))"
  using assms
proof (induction es arbitrary: data b)
  case Nil
  then show ?case by simp
next
  case (Cons x xs)
  from Cons.prems have d: "distinct (map fst xs)" and nx: "fst x \<notin> fst ` set xs" by auto
  have same: "getProp (fst (writeEntry (data, b) x)) (fst e) = getProp data (fst e)"
    if "e \<in> set xs" for e
  proof -
    from that have "fst e \<in> fst ` set xs" by (rule imageI)
    with nx have "fst e \<noteq> fst x" by metis
    then show ?thesis by (simp add: getProp_def writeEntry_other)
  qed
  obtain data' b' where w: "writeEntry (data, b) x = (data', b')"
    by (cases "writeEntry (data, b) x")
  have b': "b' \<longleftrightarrow> b \<or> getProp data (fst x) \<noteq> JString (snd x)"
    using w by (auto simp add: writeEntry_def split: if_splits)
  have "snd (foldl writeEntry (data', b') xs)
         \<longleftrightarrow> b' \<or> (\<exists>e \<in> set xs. getProp data' (fst e) \<noteq> JString (snd e))"
    by (rule Cons.IH[OF d])
  moreover have "\<And>e. e \<in> set xs \<Longrightarrow> getProp data' (fst e) = getProp data (fst e)"
    using same w by simp
  ultimately show ?case using w b' by auto
qed

lemma writeFrontmatter_order:
  assumes "distinct (map fst es)" and "distinct (map fst es')" and "set es' = set es"
    and "js ''__proto__'' \<notin> fst ` set es"
  shows "writeFrontmatter doc es' = writeFrontmatter doc es"
proof -
  let ?data = "case frontmatter doc of Some d \<Rightarrow> d | None \<Rightarrow> Map.empty"
  have p': "js ''__proto__'' \<notin> fst ` set es'" using assms(3,4) by simp
  have m: "map_of es' = map_of es"
    using assms(1-3) by (intro map_of_inject_set[THEN iffD2]) simp_all
  have "fst (foldl writeEntry (?data, False) es') = fst (foldl writeEntry (?data, False) es)"
    by (rule ext)
       (simp add: foldl_writeEntry_lookup[OF assms(2) p'] foldl_writeEntry_lookup[OF assms(1,4)] m)
  moreover
  have "snd (foldl writeEntry (?data, False) es') = snd (foldl writeEntry (?data, False) es)"
    by (simp add: foldl_writeEntry_flag[OF assms(1)] foldl_writeEntry_flag[OF assms(2)] assms(3))
  ultimately show ?thesis by (simp add: writeFrontmatter_def Let_def)
qed

lemma processFile_plan:
  "processFile g c f today s doc =
     (case frontmatter doc of
        None \<Rightarrow> skipped ''no-frontmatter'' doc
      | Some fm \<Rightarrow>
          (case planUpdates g c f today s (getProp fm (sourceKey s))
                  (getProp fm (leapStrategyKey s)) of
             Inl why \<Rightarrow> skipped why doc
           | Inr updates \<Rightarrow> applyUpdates doc updates))"
  by (simp add: processFile_def planUpdates_def Let_def split: option.splits jsvalue.splits)

text \<open>The entries to write have distinct keys, none of them \<open>__proto__\<close>.\<close>

lemma planUpdates_keys:
  assumes "planUpdates g c f today s src ovr = Inr u"
  shows "distinct (map fst u) \<and> js ''__proto__'' \<notin> fst ` set u"
proof -
  have single: "\<And>k v. distinct (map fst (objSet [] k v))
                       \<and> js ''__proto__'' \<notin> fst ` set (objSet [] k v)"
    by (simp add: objSet_def)
  have range: "\<And>lunar st.
      distinct (map fst (buildRangeOutputs g c f lunar st s (cyear today)))
      \<and> js ''__proto__'' \<notin> fst ` set (buildRangeOutputs g c f lunar st s (cyear today))"
    unfolding buildRangeOutputs_def buildRangeLoop_fold by (rule objSet_fold_keys) simp
  from assms consider (one) k v where "u = objSet [] k v"
    | (many) lunar st where "u = buildRangeOutputs g c f lunar st s (cyear today)"
    by (auto simp add: planUpdates_def Let_def split: jsvalue.splits option.splits if_splits)
  then show ?thesis
  proof cases
    case one
    then show ?thesis using single[of k v] by simp
  next
    case many
    then show ?thesis using range[of lunar st] by simp
  qed
qed

text \<open>
  C9, as stated, at a document without a front matter block: both runs are skipped with
  the reason \<open>no-frontmatter\<close>, so the outcome of the second run is not \<open>Unchanged\<close>.
\<close>

theorem processFile_twice_no_frontmatter:
  "processFile sampleLeapMonth sampleFromYmd bracketFormat (CalendarDate 2025 3 1)
     DEFAULT_SETTINGS
     (snd (processFile sampleLeapMonth sampleFromYmd bracketFormat (CalendarDate 2025 3 1)
             DEFAULT_SETTINGS \<lparr>frontmatter = None, body = js ''text''\<rparr>))
   = (\<lparr>status = Skipped, reason = Some ''no-frontmatter''\<rparr>,
      \<lparr>frontmatter = None, body = js ''text''\<rparr>) \<and>
   Skipped \<noteq> Unchanged"
  by (simp add: processFile_def skipped_def)

text \<open>
  C9, amended. Take a first run of \<open>processFile\<close> on a document, and a second run with
  the same settings, the same today and the same primitives on the document that the
  first run left, in which the source field and the strategy override read as before.
  If the first outcome is \<open>Updated\<close> or \<open>Unchanged\<close>, the second outcome is \<open>Unchanged\<close>
  and the document stays as it is. If the first outcome is \<open>Skipped\<close>, the first run
  left the document as it was and the second run is skipped with the same reason.
\<close>

theorem processFile_twice:
  assumes first: "processFile g c f today s doc = (r1, doc1)"
    and same: "sourceFields s doc1 = sourceFields s doc"
  shows "(status r1 = Updated \<or> status r1 = Unchanged \<longrightarrow>
            processFile g c f today s doc1 = (\<lparr>status = Unchanged, reason = None\<rparr>, doc1)) \<and>
         (status r1 = Skipped \<longrightarrow> doc1 = doc \<and> processFile g c f today s doc1 = (r1, doc1)) \<and>
         status r1 \<noteq> Failed"
proof (cases "frontmatter doc")
  case None
  with first show ?thesis by (auto simp add: processFile_plan skipped_def)
next
  case (Some fm)
  let ?plan = "planUpdates g c f today s (getProp fm (sourceKey s))
                 (getProp fm (leapStrategyKey s))"
  show ?thesis
  proof (cases ?plan)
    case (Inl why)
    with Some first show ?thesis by (auto simp add: processFile_plan skipped_def)
  next
    case (Inr u)
    with Some first have r: "(r1, doc1) = applyUpdates doc u" by (simp add: processFile_plan)
    then have d1: "doc1 = snd (writeFrontmatter doc u)"
      and st: "status r1 = (if fst (writeFrontmatter doc u) then Updated else Unchanged)"
      by (simp_all add: applyUpdates_def Let_def)
    from d1 Some obtain fm1 where fm1: "frontmatter doc1 = Some fm1"
      by (auto simp add: writeFrontmatter_def Let_def split: if_splits)
    with same Some have "(getProp fm1 (sourceKey s), getProp fm1 (leapStrategyKey s))
        = (getProp fm (sourceKey s), getProp fm (leapStrategyKey s))"
      by (simp add: sourceFields_def)
    with fm1 Inr have p2: "processFile g c f today s doc1 = applyUpdates doc1 u"
      by (simp add: processFile_plan)
    from planUpdates_keys[OF Inr]
    have "distinct (map fst u)" "js ''__proto__'' \<notin> fst ` set u" by simp_all
    from writeFrontmatter_again[OF this, of doc] d1
    have "writeFrontmatter doc1 u = (False, doc1)" by simp
    with p2 have "processFile g c f today s doc1 = (\<lparr>status = Unchanged, reason = None\<rparr>, doc1)"
      by (simp add: applyUpdates_def Let_def)
    with st show ?thesis by simp
  qed
qed

text \<open>
  A note whose front matter holds \<open>lunar-birthday: 2023-02-10\<close>, with the default
  settings on 1 March 2025: the first run adds the field \<open>birthday\<close> and reports
  \<open>Updated\<close>; the second run reports \<open>Unchanged\<close>.
\<close>

theorem processFile_twice_witness:
  "processFile sampleLeapMonth sampleFromYmd bracketFormat (CalendarDate 2025 3 1)
     DEFAULT_SETTINGS
     \<lparr>frontmatter = Some [js ''lunar-birthday'' \<mapsto> JString (js ''2023-02-10'')],
      body = js ''text''\<rparr>
   = (\<lparr>status = Updated, reason = None\<rparr>,
      \<lparr>frontmatter = Some [js ''lunar-birthday'' \<mapsto> JString (js ''2023-02-10''),
                           js ''birthday'' \<mapsto> JString (js ''YYYY-MM-DD'')],
       body = js ''text''\<rparr>) \<and>
   sourceFields DEFAULT_SETTINGS
     \<lparr>frontmatter = Some [js ''lunar-birthday'' \<mapsto> JString (js ''2023-02-10''),
                          js ''birthday'' \<mapsto> JString (js ''YYYY-MM-DD'')],
      body = js ''text''\<rparr>
   = sourceFields DEFAULT_SETTINGS
       \<lparr>frontmatter = Some [js ''lunar-birthday'' \<mapsto> JString (js ''2023-02-10'')],
        body = js ''text''\<rparr> \<and>
   status (fst (processFile sampleLeapMonth sampleFromYmd bracketFormat (CalendarDate 2025 3 1)
     DEFAULT_SETTINGS
     \<lparr>frontmatter = Some [js ''lunar-birthday'' \<mapsto> JString (js ''2023-02-10''),
                          js ''birthday'' \<mapsto> JString (js ''YYYY-MM-DD'')],
      body = js ''text''\<rparr>)) = Unchanged"
proof -
  let ?doc = "\<lparr>frontmatter = Some [js ''lunar-birthday'' \<mapsto> JString (js ''2023-02-10'')],
               body = js ''text''\<rparr>"
  let ?doc1 = "\<lparr>frontmatter = Some [js ''lunar-birthday'' \<mapsto> JString (js ''2023-02-10''),
                                    js ''birthday'' \<mapsto> JString (js ''YYYY-MM-DD'')],
                body = js ''text''\<rparr>"
  have first: "processFile sampleLeapMonth sampleFromYmd bracketFormat (CalendarDate 2025 3 1)
                 DEFAULT_SETTINGS ?doc = (\<lparr>status = Updated, reason = None\<rparr>, ?doc1)"
    by (simp add: processFile_def DEFAULT_SETTINGS_def getProp_def js_def
        parseLunar_def Let_def skipOptional_def startsWith_def LUNAR_TAG_def
        LEAP_MARKER_def isDigits_def isDigit_def Number_def isWhiteSpace_def
        parseLeapStrategy_def findNextSolar_def findNextSolarFrom.simps MAX_SEARCH_YEARS_def
        toSolar_def resolveLunarMonth_def sampleFromYmd_def isSameOrAfter_def
        applyUpdates_def writeFrontmatter_def writeEntry_def setProp_def objSet_def
        bracketFormat_def)
  have same: "sourceFields DEFAULT_SETTINGS ?doc1 = sourceFields DEFAULT_SETTINGS ?doc"
    by (simp add: sourceFields_def DEFAULT_SETTINGS_def getProp_def js_def)
  from processFile_twice[OF first same] first same show ?thesis by simp
qed

end
